theory Spec2Isabelle
  imports Complex_Main
begin

section \<open>Python values, tensors and exceptions\<close>

text \<open>
  The module \<^verbatim>\<open>vanilla_option.py\<close> holds two keyword-only functions,
  \<^verbatim>\<open>get_vanilla_prices\<close> and \<^verbatim>\<open>get_vanilla_greeks\<close>. Both take batches and return a
  batch or raise.

  Floating-point numbers are idealised as reals; \<^verbatim>\<open>torch.exp\<close>, \<^verbatim>\<open>torch.log\<close> and
  \<^verbatim>\<open>torch.sqrt\<close> are the real functions \<open>exp\<close>, \<open>ln\<close> and \<open>sqrt\<close>. The standard
  normal distribution function \<^verbatim>\<open>scipy.stats.norm.cdf\<close> is a library function outside the
  repository: every definition takes it as the parameter \<open>cdf\<close>.

  An exception is a value: a function returns \<open>Inl e\<close> where the Python raises \<open>e\<close>, and
  \<open>Inr v\<close> where it returns \<open>v\<close>.
\<close>

datatype error =
    ValueError string
  | TypeError
  | UnboundLocalError string
  | RuntimeError

text \<open>
  A batch argument is \<^verbatim>\<open>None\<close> (the default of the optional ones), a Python list of
  floats, or a one-dimensional float \<^verbatim>\<open>torch.Tensor\<close>. The distinction matters: the
  source applies \<^verbatim>\<open>torch.log\<close> and the operators \<^verbatim>\<open>/\<close> and \<^verbatim>\<open>*\<close> to some raw
  arguments, and those accept a tensor but not a list or \<^verbatim>\<open>None\<close>.
\<close>

datatype pyval = PyNone | PyList "real list" | PyTensor "real list"

text \<open>The values \<^verbatim>\<open>is_call_options\<close> can take: a bool, an int, a string or \<^verbatim>\<open>None\<close>.\<close>

datatype pyflag = PyBool bool | PyInt int | PyStr string | PyNoneFlag

type_synonym tensor = "real list"

definition bindE :: "error + 'a \<Rightarrow> ('a \<Rightarrow> error + 'b) \<Rightarrow> error + 'b" where
  "bindE m f = (case m of Inl e \<Rightarrow> Inl e | Inr v \<Rightarrow> f v)"

text \<open>
  A binary operator on two one-dimensional tensors works elementwise on equal lengths,
  broadcasts a tensor of length one, and raises \<^verbatim>\<open>RuntimeError\<close> on any other pair of
  lengths.
\<close>

definition elementwise :: "(real \<Rightarrow> real \<Rightarrow> real) \<Rightarrow> tensor \<Rightarrow> tensor \<Rightarrow> error + tensor" where
  "elementwise f xs ys =
     (if length xs = length ys then Inr (map2 f xs ys)
      else if length xs = 1 then Inr (map (f (hd xs)) ys)
      else if length ys = 1 then Inr (map (\<lambda>x. f x (hd ys)) xs)
      else Inl RuntimeError)"

definition t_add :: "tensor \<Rightarrow> tensor \<Rightarrow> error + tensor" where
  "t_add = elementwise (+)"

definition t_sub :: "tensor \<Rightarrow> tensor \<Rightarrow> error + tensor" where
  "t_sub = elementwise (-)"

definition t_mul :: "tensor \<Rightarrow> tensor \<Rightarrow> error + tensor" where
  "t_mul = elementwise (*)"

definition t_div :: "tensor \<Rightarrow> tensor \<Rightarrow> error + tensor" where
  "t_div = elementwise (/)"

definition t_neg :: "tensor \<Rightarrow> tensor" where
  "t_neg xs = map uminus xs"

definition zeros_like :: "tensor \<Rightarrow> tensor" where
  "zeros_like xs = map (\<lambda>_. 0) xs"

text \<open>\<^verbatim>\<open>torch.Tensor(x)\<close>: a list or a tensor becomes a tensor, \<^verbatim>\<open>None\<close> is a type error.\<close>

definition torch_Tensor :: "pyval \<Rightarrow> error + tensor" where
  "torch_Tensor v =
     (case v of PyNone \<Rightarrow> Inl TypeError | PyList xs \<Rightarrow> Inr xs | PyTensor xs \<Rightarrow> Inr xs)"

text \<open>\<^verbatim>\<open>torch.log(x)\<close> on a raw argument: only a tensor is accepted.\<close>

definition torch_log :: "pyval \<Rightarrow> error + tensor" where
  "torch_log v =
     (case v of PyNone \<Rightarrow> Inl TypeError | PyList xs \<Rightarrow> Inl TypeError
      | PyTensor xs \<Rightarrow> Inr (map ln xs))"

text \<open>\<^verbatim>\<open>t / x\<close> for a tensor \<open>t\<close> and a raw argument \<open>x\<close>.\<close>

definition tensor_div_py :: "tensor \<Rightarrow> pyval \<Rightarrow> error + tensor" where
  "tensor_div_py xs v =
     (case v of PyNone \<Rightarrow> Inl TypeError | PyList ys \<Rightarrow> Inl TypeError
      | PyTensor ys \<Rightarrow> t_div xs ys)"

text \<open>
  \<^verbatim>\<open>x * t\<close> for a raw argument \<open>x\<close> and a float tensor \<open>t\<close>: \<^verbatim>\<open>None * t\<close> is a type
  error, and so is a list times a float tensor (a sequence is repeated by an integer only).
\<close>

definition py_mul_tensor :: "pyval \<Rightarrow> tensor \<Rightarrow> error + tensor" where
  "py_mul_tensor v ys =
     (case v of PyNone \<Rightarrow> Inl TypeError | PyList xs \<Rightarrow> Inl TypeError
      | PyTensor xs \<Rightarrow> t_mul xs ys)"

text \<open>
  \<^verbatim>\<open>flag == True\<close> and \<^verbatim>\<open>flag == False\<close>: Python's \<^verbatim>\<open>bool\<close> is a subclass of
  \<^verbatim>\<open>int\<close>, so \<^verbatim>\<open>1 == True\<close> and \<^verbatim>\<open>0 == False\<close> hold; a string or \<^verbatim>\<open>None\<close>
  equals neither.
\<close>

fun py_eq_bool :: "pyflag \<Rightarrow> bool \<Rightarrow> bool" where
  "py_eq_bool (PyBool c) b = (c = b)"
| "py_eq_bool (PyInt n) b = (n = (if b then 1 else 0))"
| "py_eq_bool (PyStr s) b = False"
| "py_eq_bool PyNoneFlag b = False"

text \<open>Reading a local variable that no executed statement has assigned.\<close>

definition read_local :: "string \<Rightarrow> tensor option \<Rightarrow> error + tensor" where
  "read_local name v = (case v of None \<Rightarrow> Inl (UnboundLocalError name) | Some t \<Rightarrow> Inr t)"

text \<open>A function that returns a tensor returns it as a Python value.\<close>

definition return_tensor :: "error + tensor \<Rightarrow> error + pyval" where
  "return_tensor m = bindE m (\<lambda>t. Inr (PyTensor t))"

text \<open>The module constant \<^verbatim>\<open>pi = 3.14159265359\<close>.\<close>

definition pi_const :: real where
  "pi_const = 314159265359 / 100000000000"

section \<open>The keyword arguments\<close>

record price_args =
  strikes :: pyval
  volatilities :: pyval
  expiries :: pyval
  spots :: pyval
  forwards :: pyval
  discount_rates :: pyval
  continuous_dividends :: pyval
  cost_of_carries :: pyval
  discount_factors :: pyval
  is_call_options :: pyflag

record greek_args = price_args +
  greek :: string

section \<open>Resolving the market parameters\<close>

text \<open>
  Lines 25-30 of \<^verbatim>\<open>get_vanilla_prices\<close> and, word for word, lines 92-97 of
  \<^verbatim>\<open>get_vanilla_greeks\<close>: the three exclusivity checks, in the source's order.
\<close>

definition check_inputs :: "'a price_args_scheme \<Rightarrow> error option" where
  "check_inputs a =
     (if (spots a = PyNone) = (forwards a = PyNone) then
        Some (ValueError ''Either spots or forwards must be supplied but not both.'')
      else if discount_rates a \<noteq> PyNone \<and> discount_factors a \<noteq> PyNone then
        Some (ValueError ''At most one of discount_rates and discount_factors may be supplied'')
      else if continuous_dividends a \<noteq> PyNone \<and> cost_of_carries a \<noteq> PyNone then
        Some (ValueError
          ''At most one of continuous_dividends and cost_of_carries may be supplied'')
      else None)"

text \<open>
  Lines 36-41 (and 103-108). The second branch reads the raw arguments
  \<^verbatim>\<open>discount_factors\<close> and \<^verbatim>\<open>expiries\<close>: \<^verbatim>\<open>-torch.log(discount_factors) / expiries\<close>.
\<close>

definition resolve_discount_rates :: "'a price_args_scheme \<Rightarrow> tensor \<Rightarrow> error + tensor" where
  "resolve_discount_rates a t_volatilities =
     (if discount_rates a \<noteq> PyNone then torch_Tensor (discount_rates a)
      else if discount_factors a \<noteq> PyNone then
        bindE (torch_log (discount_factors a)) (\<lambda>l. tensor_div_py (t_neg l) (expiries a))
      else Inr (zeros_like t_volatilities))"

text \<open>
  Lines 43-44 (and 110-111): an \<^verbatim>\<open>if\<close> with no \<^verbatim>\<open>else\<close>. The local variable
  \<^verbatim>\<open>t_continuous_dividends\<close> is assigned only when \<^verbatim>\<open>continuous_dividends\<close> is
  \<^verbatim>\<open>None\<close>; otherwise it stays unbound (\<open>None\<close> here).
\<close>

definition resolve_continuous_dividends :: "'a price_args_scheme \<Rightarrow> tensor \<Rightarrow> tensor option" where
  "resolve_continuous_dividends a t_volatilities =
     (if continuous_dividends a = PyNone then Some (zeros_like t_volatilities) else None)"

text \<open>Lines 46-49 (and 113-116).\<close>

definition resolve_cost_of_carries ::
  "'a price_args_scheme \<Rightarrow> tensor \<Rightarrow> tensor option \<Rightarrow> error + tensor" where
  "resolve_cost_of_carries a t_discount_rates t_continuous_dividends =
     (if cost_of_carries a \<noteq> PyNone then torch_Tensor (cost_of_carries a)
      else bindE (read_local ''t_continuous_dividends'' t_continuous_dividends)
             (\<lambda>d. t_sub t_discount_rates d))"

text \<open>Lines 51-54 (and 118-121).\<close>

definition resolve_discount_factors ::
  "'a price_args_scheme \<Rightarrow> tensor \<Rightarrow> tensor \<Rightarrow> error + tensor" where
  "resolve_discount_factors a t_discount_rates t_expiries =
     (if discount_factors a \<noteq> PyNone then torch_Tensor (discount_factors a)
      else bindE (t_mul (t_neg t_discount_rates) t_expiries) (\<lambda>x. Inr (map exp x)))"

text \<open>\<^verbatim>\<open>torch.exp(-t_cost_of_carries * t_expiries)\<close>, as lines 58, 125, 146, 158 have it.\<close>

definition exp_neg_carry :: "tensor \<Rightarrow> tensor \<Rightarrow> error + tensor" where
  "exp_neg_carry t_cost_of_carries t_expiries =
     bindE (t_mul (t_neg t_cost_of_carries) t_expiries) (\<lambda>x. Inr (map exp x))"

text \<open>
  Lines 56-61 of \<^verbatim>\<open>get_vanilla_prices\<close>. With \<^verbatim>\<open>forwards\<close> supplied, line 58 is the
  expression statement \<^verbatim>\<open>t_spots * torch.exp(-t_cost_of_carries * t_expiries)\<close>: it
  reads \<^verbatim>\<open>t_spots\<close>, which nothing has assigned on that path. The pair returned is
  \<open>(t_forwards, t_spots)\<close>.
\<close>

definition prices_spot_forward ::
  "'a price_args_scheme \<Rightarrow> tensor \<Rightarrow> tensor \<Rightarrow> error + tensor \<times> tensor option" where
  "prices_spot_forward a t_cost_of_carries t_expiries =
     (if forwards a \<noteq> PyNone then
        bindE (torch_Tensor (forwards a)) (\<lambda>t_forwards.
        bindE (read_local ''t_spots'' None) (\<lambda>t_spots.
        bindE (exp_neg_carry t_cost_of_carries t_expiries) (\<lambda>e.
        bindE (t_mul t_spots e) (\<lambda>_.
        Inr (t_forwards, None)))))
      else
        bindE (torch_Tensor (spots a)) (\<lambda>t_spots.
        bindE (t_mul t_cost_of_carries t_expiries) (\<lambda>x.
        bindE (t_mul t_spots (map exp x)) (\<lambda>t_forwards.
        Inr (t_forwards, Some t_spots)))))"

text \<open>Lines 123-128 of \<^verbatim>\<open>get_vanilla_greeks\<close>: here line 125 assigns \<^verbatim>\<open>t_spots\<close>.\<close>

definition greeks_spot_forward ::
  "'a price_args_scheme \<Rightarrow> tensor \<Rightarrow> tensor \<Rightarrow> error + tensor \<times> tensor" where
  "greeks_spot_forward a t_cost_of_carries t_expiries =
     (if forwards a \<noteq> PyNone then
        bindE (torch_Tensor (forwards a)) (\<lambda>t_forwards.
        bindE (exp_neg_carry t_cost_of_carries t_expiries) (\<lambda>e.
        bindE (t_mul t_forwards e) (\<lambda>t_spots.
        Inr (t_forwards, t_spots))))
      else
        bindE (torch_Tensor (spots a)) (\<lambda>t_spots.
        bindE (t_mul t_cost_of_carries t_expiries) (\<lambda>x.
        bindE (t_mul t_spots (map exp x)) (\<lambda>t_forwards.
        Inr (t_forwards, t_spots)))))"

section \<open>The Black-Scholes terms\<close>

text \<open>Line 63, and the first line of every Greek: \<^verbatim>\<open>t_volatilities * torch.sqrt(t_expiries)\<close>.\<close>

definition sqrt_var_of :: "tensor \<Rightarrow> tensor \<Rightarrow> error + tensor" where
  "sqrt_var_of t_volatilities t_expiries = t_mul t_volatilities (map sqrt t_expiries)"

text \<open>
  Line 64, and the second line of every Greek:
  \<^verbatim>\<open>(torch.log(t_forwards / t_strikes) + t_sqrt_var * t_sqrt_var / 2) / t_sqrt_var\<close>.
\<close>

definition d1_of :: "tensor \<Rightarrow> tensor \<Rightarrow> tensor \<Rightarrow> error + tensor" where
  "d1_of t_forwards t_strikes t_sqrt_var =
     bindE (t_div t_forwards t_strikes) (\<lambda>q.
     bindE (t_mul t_sqrt_var t_sqrt_var) (\<lambda>s.
     bindE (t_add (map ln q) (map (\<lambda>x. x / 2) s)) (\<lambda>n.
     t_div n t_sqrt_var)))"

text \<open>Line 66: \<^verbatim>\<open>t_forwards * norm.cdf(d1) - t_strikes * norm.cdf(d2)\<close>.\<close>

definition undiscounted_calls ::
  "(real \<Rightarrow> real) \<Rightarrow> tensor \<Rightarrow> tensor \<Rightarrow> tensor \<Rightarrow> tensor \<Rightarrow> error + tensor" where
  "undiscounted_calls cdf t_forwards t_strikes d1 d2 =
     bindE (t_mul t_forwards (map cdf d1)) (\<lambda>x.
     bindE (t_mul t_strikes (map cdf d2)) (\<lambda>y.
     t_sub x y))"

text \<open>\<^verbatim>\<open>torch.exp(-d1 ** 2 / 2)\<close>: the power binds tighter than the unary minus.\<close>

definition exp_neg_half_square :: "tensor \<Rightarrow> tensor" where
  "exp_neg_half_square d1 = map (\<lambda>x. exp (- (x ^ 2) / 2)) d1"

text \<open>\<^verbatim>\<open>torch.sqrt(2 * pi * (t_expiries))\<close>, with the module's constant \<^verbatim>\<open>pi\<close>.\<close>

definition sqrt_two_pi_t :: "tensor \<Rightarrow> tensor" where
  "sqrt_two_pi_t t_expiries = map (\<lambda>t. sqrt (2 * pi_const * t)) t_expiries"

section \<open>get_vanilla_prices\<close>

text \<open>
  Lines 11-72. The put branch (line 72) multiplies by the raw argument
  \<^verbatim>\<open>discount_factors\<close>, the call branch (line 68) by the local \<^verbatim>\<open>t_discount_factors\<close>.
\<close>

definition get_vanilla_prices :: "(real \<Rightarrow> real) \<Rightarrow> price_args \<Rightarrow> error + pyval" where
  "get_vanilla_prices cdf a =
     (case check_inputs a of Some e \<Rightarrow> Inl e | None \<Rightarrow>
      bindE (torch_Tensor (strikes a)) (\<lambda>t_strikes.
      bindE (torch_Tensor (volatilities a)) (\<lambda>t_volatilities.
      bindE (torch_Tensor (expiries a)) (\<lambda>t_expiries.
      bindE (resolve_discount_rates a t_volatilities) (\<lambda>t_discount_rates.
      bindE (resolve_cost_of_carries a t_discount_rates
               (resolve_continuous_dividends a t_volatilities)) (\<lambda>t_cost_of_carries.
      bindE (resolve_discount_factors a t_discount_rates t_expiries) (\<lambda>t_discount_factors.
      bindE (prices_spot_forward a t_cost_of_carries t_expiries) (\<lambda>(t_forwards, t_spots).
      bindE (sqrt_var_of t_volatilities t_expiries) (\<lambda>t_sqrt_var.
      bindE (d1_of t_forwards t_strikes t_sqrt_var) (\<lambda>d1.
      bindE (t_sub d1 t_sqrt_var) (\<lambda>d2.
      bindE (undiscounted_calls cdf t_forwards t_strikes d1 d2) (\<lambda>t_undiscounted_calls.
      if py_eq_bool (is_call_options a) True then
        return_tensor (t_mul t_discount_factors t_undiscounted_calls)
      else
        bindE (t_sub t_forwards t_strikes) (\<lambda>t_undiscounted_forward.
        bindE (t_sub t_undiscounted_calls t_undiscounted_forward) (\<lambda>t_undiscounted_puts.
        return_tensor (py_mul_tensor (discount_factors a) t_undiscounted_puts)))))))))))))))"

section \<open>get_vanilla_greeks\<close>

text \<open>The ten formulas, each from its own lines of the source.\<close>

text \<open>Lines 132-135.\<close>

definition call_delta :: "(real \<Rightarrow> real) \<Rightarrow> tensor \<Rightarrow> tensor \<Rightarrow> tensor \<Rightarrow> tensor \<Rightarrow> error + tensor" where
  "call_delta cdf t_strikes t_volatilities t_expiries t_forwards =
     bindE (sqrt_var_of t_volatilities t_expiries) (\<lambda>t_sqrt_var.
     bindE (d1_of t_forwards t_strikes t_sqrt_var) (\<lambda>d1.
     Inr (map cdf d1)))"

text \<open>Lines 137-140.\<close>

definition call_gamma :: "tensor \<Rightarrow> tensor \<Rightarrow> tensor \<Rightarrow> tensor \<Rightarrow> tensor \<Rightarrow> error + tensor" where
  "call_gamma t_strikes t_volatilities t_expiries t_forwards t_spots =
     bindE (sqrt_var_of t_volatilities t_expiries) (\<lambda>t_sqrt_var.
     bindE (d1_of t_forwards t_strikes t_sqrt_var) (\<lambda>d1.
     bindE (t_mul (sqrt_two_pi_t t_expiries) t_spots) (\<lambda>x.
     bindE (t_mul x t_volatilities) (\<lambda>y.
     t_div (exp_neg_half_square d1) y))))"

text \<open>Lines 142-148.\<close>

definition call_theta ::
  "(real \<Rightarrow> real) \<Rightarrow> tensor \<Rightarrow> tensor \<Rightarrow> tensor \<Rightarrow> tensor \<Rightarrow> tensor \<Rightarrow> tensor \<Rightarrow> error + tensor" where
  "call_theta cdf t_strikes t_volatilities t_expiries t_cost_of_carries t_forwards t_spots =
     bindE (sqrt_var_of t_volatilities t_expiries) (\<lambda>t_sqrt_var.
     bindE (d1_of t_forwards t_strikes t_sqrt_var) (\<lambda>d1.
     bindE (t_sub d1 t_sqrt_var) (\<lambda>d2.
     bindE (t_mul t_spots t_volatilities) (\<lambda>x.
     bindE (t_mul x (exp_neg_half_square d1)) (\<lambda>y.
     bindE (t_div y (sqrt_two_pi_t t_expiries)) (\<lambda>lhs.
     bindE (t_mul t_cost_of_carries t_strikes) (\<lambda>u.
     bindE (exp_neg_carry t_cost_of_carries t_expiries) (\<lambda>e.
     bindE (t_mul u e) (\<lambda>v.
     bindE (t_mul v (map cdf d2)) (\<lambda>rhs.
     t_sub lhs rhs))))))))))"

text \<open>Lines 150-153.\<close>

definition call_vega :: "tensor \<Rightarrow> tensor \<Rightarrow> tensor \<Rightarrow> tensor \<Rightarrow> tensor \<Rightarrow> error + tensor" where
  "call_vega t_strikes t_volatilities t_expiries t_forwards t_spots =
     bindE (sqrt_var_of t_volatilities t_expiries) (\<lambda>t_sqrt_var.
     bindE (d1_of t_forwards t_strikes t_sqrt_var) (\<lambda>d1.
     bindE (t_mul t_spots (map sqrt t_expiries)) (\<lambda>x.
     t_mul x (exp_neg_half_square d1))))"

text \<open>Lines 155-159.\<close>

definition call_rho ::
  "(real \<Rightarrow> real) \<Rightarrow> tensor \<Rightarrow> tensor \<Rightarrow> tensor \<Rightarrow> tensor \<Rightarrow> tensor \<Rightarrow> error + tensor" where
  "call_rho cdf t_strikes t_volatilities t_expiries t_cost_of_carries t_forwards =
     bindE (sqrt_var_of t_volatilities t_expiries) (\<lambda>t_sqrt_var.
     bindE (d1_of t_forwards t_strikes t_sqrt_var) (\<lambda>d1.
     bindE (t_sub d1 t_sqrt_var) (\<lambda>d2.
     bindE (t_mul t_strikes t_expiries) (\<lambda>x.
     bindE (exp_neg_carry t_cost_of_carries t_expiries) (\<lambda>e.
     bindE (t_mul x e) (\<lambda>y.
     t_mul y (map cdf d2)))))))"

text \<open>Lines 163-166.\<close>

definition put_delta :: "(real \<Rightarrow> real) \<Rightarrow> tensor \<Rightarrow> tensor \<Rightarrow> tensor \<Rightarrow> tensor \<Rightarrow> error + tensor" where
  "put_delta cdf t_strikes t_volatilities t_expiries t_forwards =
     bindE (sqrt_var_of t_volatilities t_expiries) (\<lambda>t_sqrt_var.
     bindE (d1_of t_forwards t_strikes t_sqrt_var) (\<lambda>d1.
     Inr (map (\<lambda>x. cdf x - 1) d1)))"

text \<open>Lines 168-171.\<close>

definition put_gamma :: "tensor \<Rightarrow> tensor \<Rightarrow> tensor \<Rightarrow> tensor \<Rightarrow> tensor \<Rightarrow> error + tensor" where
  "put_gamma t_strikes t_volatilities t_expiries t_forwards t_spots =
     bindE (sqrt_var_of t_volatilities t_expiries) (\<lambda>t_sqrt_var.
     bindE (d1_of t_forwards t_strikes t_sqrt_var) (\<lambda>d1.
     bindE (t_mul (sqrt_two_pi_t t_expiries) t_spots) (\<lambda>x.
     bindE (t_mul x t_volatilities) (\<lambda>y.
     t_div (exp_neg_half_square d1) y))))"

text \<open>Lines 173-179.\<close>

definition put_theta ::
  "(real \<Rightarrow> real) \<Rightarrow> tensor \<Rightarrow> tensor \<Rightarrow> tensor \<Rightarrow> tensor \<Rightarrow> tensor \<Rightarrow> tensor \<Rightarrow> error + tensor" where
  "put_theta cdf t_strikes t_volatilities t_expiries t_cost_of_carries t_forwards t_spots =
     bindE (sqrt_var_of t_volatilities t_expiries) (\<lambda>t_sqrt_var.
     bindE (d1_of t_forwards t_strikes t_sqrt_var) (\<lambda>d1.
     bindE (t_sub d1 t_sqrt_var) (\<lambda>d2.
     bindE (t_mul (t_neg t_spots) t_volatilities) (\<lambda>x.
     bindE (t_mul x (exp_neg_half_square d1)) (\<lambda>y.
     bindE (t_div y (sqrt_two_pi_t t_expiries)) (\<lambda>lhs.
     bindE (t_mul t_cost_of_carries t_strikes) (\<lambda>u.
     bindE (exp_neg_carry t_cost_of_carries t_expiries) (\<lambda>e.
     bindE (t_mul u e) (\<lambda>v.
     bindE (t_mul v (map cdf (t_neg d2))) (\<lambda>rhs.
     t_add lhs rhs))))))))))"

text \<open>Lines 181-184.\<close>

definition put_vega :: "tensor \<Rightarrow> tensor \<Rightarrow> tensor \<Rightarrow> tensor \<Rightarrow> tensor \<Rightarrow> error + tensor" where
  "put_vega t_strikes t_volatilities t_expiries t_forwards t_spots =
     bindE (sqrt_var_of t_volatilities t_expiries) (\<lambda>t_sqrt_var.
     bindE (d1_of t_forwards t_strikes t_sqrt_var) (\<lambda>d1.
     bindE (t_mul t_spots (map sqrt t_expiries)) (\<lambda>x.
     t_mul x (exp_neg_half_square d1))))"

text \<open>Lines 186-190.\<close>

definition put_rho ::
  "(real \<Rightarrow> real) \<Rightarrow> tensor \<Rightarrow> tensor \<Rightarrow> tensor \<Rightarrow> tensor \<Rightarrow> tensor \<Rightarrow> error + tensor" where
  "put_rho cdf t_strikes t_volatilities t_expiries t_cost_of_carries t_forwards =
     bindE (sqrt_var_of t_volatilities t_expiries) (\<lambda>t_sqrt_var.
     bindE (d1_of t_forwards t_strikes t_sqrt_var) (\<lambda>d1.
     bindE (t_sub d1 t_sqrt_var) (\<lambda>d2.
     bindE (t_mul (t_neg t_strikes) t_expiries) (\<lambda>x.
     bindE (exp_neg_carry t_cost_of_carries t_expiries) (\<lambda>e.
     bindE (t_mul x e) (\<lambda>y.
     t_mul y (map cdf (t_neg d2))))))))"

text \<open>
  Lines 131-159, the body of \<^verbatim>\<open>if is_call_options == True\<close>: five \<^verbatim>\<open>if\<close> statements,
  each ending in a \<^verbatim>\<open>return\<close>. \<open>None\<close> when no selector matched and control leaves the
  block.
\<close>

definition call_block ::
  "(real \<Rightarrow> real) \<Rightarrow> string \<Rightarrow> tensor \<Rightarrow> tensor \<Rightarrow> tensor \<Rightarrow> tensor \<Rightarrow> tensor \<Rightarrow> tensor
     \<Rightarrow> (error + pyval) option" where
  "call_block cdf g t_strikes t_volatilities t_expiries t_cost_of_carries t_forwards t_spots =
     (if g = ''delta'' then
        Some (return_tensor (call_delta cdf t_strikes t_volatilities t_expiries t_forwards))
      else if g = ''gamma'' then
        Some (return_tensor (call_gamma t_strikes t_volatilities t_expiries t_forwards t_spots))
      else if g = ''theta'' then
        Some (return_tensor (call_theta cdf t_strikes t_volatilities t_expiries
                t_cost_of_carries t_forwards t_spots))
      else if g = ''vega'' then
        Some (return_tensor (call_vega t_strikes t_volatilities t_expiries t_forwards t_spots))
      else if g = ''rho'' then
        Some (return_tensor (call_rho cdf t_strikes t_volatilities t_expiries
                t_cost_of_carries t_forwards))
      else None)"

text \<open>Lines 162-190, the body of \<^verbatim>\<open>if is_call_options == False\<close>.\<close>

definition put_block ::
  "(real \<Rightarrow> real) \<Rightarrow> string \<Rightarrow> tensor \<Rightarrow> tensor \<Rightarrow> tensor \<Rightarrow> tensor \<Rightarrow> tensor \<Rightarrow> tensor
     \<Rightarrow> (error + pyval) option" where
  "put_block cdf g t_strikes t_volatilities t_expiries t_cost_of_carries t_forwards t_spots =
     (if g = ''delta'' then
        Some (return_tensor (put_delta cdf t_strikes t_volatilities t_expiries t_forwards))
      else if g = ''gamma'' then
        Some (return_tensor (put_gamma t_strikes t_volatilities t_expiries t_forwards t_spots))
      else if g = ''theta'' then
        Some (return_tensor (put_theta cdf t_strikes t_volatilities t_expiries
                t_cost_of_carries t_forwards t_spots))
      else if g = ''vega'' then
        Some (return_tensor (put_vega t_strikes t_volatilities t_expiries t_forwards t_spots))
      else if g = ''rho'' then
        Some (return_tensor (put_rho cdf t_strikes t_volatilities t_expiries
                t_cost_of_carries t_forwards))
      else None)"

text \<open>The message of line 91; it ends in a quote character.\<close>

definition greek_message :: string where
  "greek_message =
     ''Input greek should be one of 'delta','gamma','theta','vega','rho'' @ [CHR 0x27]"

text \<open>
  Lines 130-192. The \<^verbatim>\<open>else\<close> of line 191 belongs to the second \<^verbatim>\<open>if\<close>
  (\<^verbatim>\<open>is_call_options == False\<close>). A call that leaves the second block without a
  \<^verbatim>\<open>return\<close> falls off the end of the function and returns \<^verbatim>\<open>None\<close>.
\<close>

definition greeks_kernel ::
  "(real \<Rightarrow> real) \<Rightarrow> string \<Rightarrow> pyflag \<Rightarrow> tensor \<Rightarrow> tensor \<Rightarrow> tensor \<Rightarrow> tensor \<Rightarrow> tensor \<Rightarrow> tensor
     \<Rightarrow> error + pyval" where
  "greeks_kernel cdf g flag t_strikes t_volatilities t_expiries t_cost_of_carries t_forwards
       t_spots =
     (case (if py_eq_bool flag True then
              call_block cdf g t_strikes t_volatilities t_expiries t_cost_of_carries
                t_forwards t_spots
            else None) of
        Some r \<Rightarrow> r
      | None \<Rightarrow>
          if py_eq_bool flag False then
            (case put_block cdf g t_strikes t_volatilities t_expiries t_cost_of_carries
                    t_forwards t_spots of
               Some r \<Rightarrow> r
             | None \<Rightarrow> Inr PyNone)
          else Inl (ValueError ''Variable 'is_call_options' can only be Booleans ''))"

text \<open>Lines 75-192.\<close>

definition get_vanilla_greeks :: "(real \<Rightarrow> real) \<Rightarrow> greek_args \<Rightarrow> error + pyval" where
  "get_vanilla_greeks cdf a =
     (if greek a \<notin> set [''delta'', ''gamma'', ''theta'', ''vega'', ''rho''] then
        Inl (ValueError greek_message)
      else case check_inputs a of Some e \<Rightarrow> Inl e | None \<Rightarrow>
      bindE (torch_Tensor (strikes a)) (\<lambda>t_strikes.
      bindE (torch_Tensor (volatilities a)) (\<lambda>t_volatilities.
      bindE (torch_Tensor (expiries a)) (\<lambda>t_expiries.
      bindE (resolve_discount_rates a t_volatilities) (\<lambda>t_discount_rates.
      bindE (resolve_cost_of_carries a t_discount_rates
               (resolve_continuous_dividends a t_volatilities)) (\<lambda>t_cost_of_carries.
      bindE (resolve_discount_factors a t_discount_rates t_expiries) (\<lambda>t_discount_factors.
      bindE (greeks_spot_forward a t_cost_of_carries t_expiries) (\<lambda>(t_forwards, t_spots).
      greeks_kernel cdf (greek a) (is_call_options a) t_strikes t_volatilities t_expiries
        t_cost_of_carries t_forwards t_spots))))))))"

section \<open>The formulas of the specification\<close>

text \<open>
  The specification's formulas, per batch element, in its own words: \<open>sqrt_var\<close>,
  \<open>d1\<close>, \<open>d2\<close>, the call and put prices, the standard normal density and vega.
\<close>

definition spec_sqrt_var :: "real \<Rightarrow> real \<Rightarrow> real" where
  "spec_sqrt_var volatility expiry = volatility * sqrt expiry"

definition spec_d1 :: "real \<Rightarrow> real \<Rightarrow> real \<Rightarrow> real \<Rightarrow> real" where
  "spec_d1 forward strike volatility expiry =
     (ln (forward / strike) + (spec_sqrt_var volatility expiry)\<^sup>2 / 2)
       / spec_sqrt_var volatility expiry"

definition spec_d2 :: "real \<Rightarrow> real \<Rightarrow> real \<Rightarrow> real \<Rightarrow> real" where
  "spec_d2 forward strike volatility expiry =
     spec_d1 forward strike volatility expiry - spec_sqrt_var volatility expiry"

definition spec_undiscounted_call ::
  "(real \<Rightarrow> real) \<Rightarrow> real \<Rightarrow> real \<Rightarrow> real \<Rightarrow> real \<Rightarrow> real" where
  "spec_undiscounted_call cdf forward strike volatility expiry =
     forward * cdf (spec_d1 forward strike volatility expiry)
       - strike * cdf (spec_d2 forward strike volatility expiry)"

definition spec_call_price ::
  "(real \<Rightarrow> real) \<Rightarrow> real \<Rightarrow> real \<Rightarrow> real \<Rightarrow> real \<Rightarrow> real \<Rightarrow> real" where
  "spec_call_price cdf discount_factor forward strike volatility expiry =
     discount_factor * spec_undiscounted_call cdf forward strike volatility expiry"

definition spec_put_price ::
  "(real \<Rightarrow> real) \<Rightarrow> real \<Rightarrow> real \<Rightarrow> real \<Rightarrow> real \<Rightarrow> real \<Rightarrow> real" where
  "spec_put_price cdf discount_factor forward strike volatility expiry =
     discount_factor
       * (spec_undiscounted_call cdf forward strike volatility expiry - (forward - strike))"

definition std_normal_pdf :: "real \<Rightarrow> real" where
  "std_normal_pdf x = exp (- (x\<^sup>2) / 2) / sqrt (2 * pi)"

definition spec_vega :: "real \<Rightarrow> real \<Rightarrow> real \<Rightarrow> real" where
  "spec_vega spot expiry d1 = spot * sqrt expiry * std_normal_pdf d1"

text \<open>The exclusivity rules of the specification, violated.\<close>

definition exclusivity_violated :: "'a price_args_scheme \<Rightarrow> bool" where
  "exclusivity_violated a \<longleftrightarrow>
     (spots a = PyNone) = (forwards a = PyNone)
     \<or> (discount_rates a \<noteq> PyNone \<and> discount_factors a \<noteq> PyNone)
     \<or> (continuous_dividends a \<noteq> PyNone \<and> cost_of_carries a \<noteq> PyNone)"

section \<open>Example batches\<close>

text \<open>
  The at-the-money example of the specification, as Python lists of one element: strike
  100, spot 100, volatility 0.2, expiry 1; no rate, no dividend, the option a call.
\<close>

definition atm_args :: price_args where
  "atm_args =
     \<lparr>strikes = PyList [100], volatilities = PyList [1 / 5], expiries = PyList [1],
      spots = PyList [100], forwards = PyNone, discount_rates = PyNone,
      continuous_dividends = PyNone, cost_of_carries = PyNone, discount_factors = PyNone,
      is_call_options = PyBool True\<rparr>"

text \<open>The same batch as tensors, with the discount factor 1 supplied.\<close>

definition atm_tensor_args :: price_args where
  "atm_tensor_args =
     \<lparr>strikes = PyTensor [100], volatilities = PyTensor [1 / 5], expiries = PyTensor [1],
      spots = PyTensor [100], forwards = PyNone, discount_rates = PyNone,
      continuous_dividends = PyNone, cost_of_carries = PyNone,
      discount_factors = PyTensor [1], is_call_options = PyBool True\<rparr>"

text \<open>The keyword arguments of a Greek: those of a price and the selector.\<close>

definition with_greek :: "string \<Rightarrow> price_args \<Rightarrow> greek_args" where
  "with_greek g a = price_args.extend a \<lparr>greek = g\<rparr>"

section \<open>The market parameters of the specification\<close>

text \<open>The elements of a supplied batch, list or tensor alike.\<close>

definition batch_of :: "pyval \<Rightarrow> real list" where
  "batch_of v = (case v of PyNone \<Rightarrow> [] | PyList xs \<Rightarrow> xs | PyTensor xs \<Rightarrow> xs)"

definition is_tensor :: "pyval \<Rightarrow> bool" where
  "is_tensor v = (case v of PyNone \<Rightarrow> False | PyList xs \<Rightarrow> False | PyTensor xs \<Rightarrow> True)"

text \<open>An optional batch fits a batch size when it is absent or has that many elements.\<close>

definition fits :: "nat \<Rightarrow> pyval \<Rightarrow> bool" where
  "fits n v = (v = PyNone \<or> length (batch_of v) = n)"

text \<open>
  The specification's input constraints: strikes, volatilities and expiries are
  required, and all batches of one call have the same length \<open>n\<close>.
\<close>

definition well_formed :: "'a price_args_scheme \<Rightarrow> nat \<Rightarrow> bool" where
  "well_formed a n =
     (strikes a \<noteq> PyNone \<and> volatilities a \<noteq> PyNone \<and> expiries a \<noteq> PyNone
      \<and> fits n (strikes a) \<and> fits n (volatilities a) \<and> fits n (expiries a)
      \<and> fits n (spots a) \<and> fits n (forwards a) \<and> fits n (discount_rates a)
      \<and> fits n (continuous_dividends a) \<and> fits n (cost_of_carries a)
      \<and> fits n (discount_factors a))"

text \<open>
  The canonical parameters of element \<open>i\<close>, as the five steps of the specification's
  normalizer resolve them.
\<close>

definition spec_strike :: "'a price_args_scheme \<Rightarrow> nat \<Rightarrow> real" where
  "spec_strike a i = batch_of (strikes a) ! i"

definition spec_volatility :: "'a price_args_scheme \<Rightarrow> nat \<Rightarrow> real" where
  "spec_volatility a i = batch_of (volatilities a) ! i"

definition spec_expiry :: "'a price_args_scheme \<Rightarrow> nat \<Rightarrow> real" where
  "spec_expiry a i = batch_of (expiries a) ! i"

definition spec_discount_rate :: "'a price_args_scheme \<Rightarrow> nat \<Rightarrow> real" where
  "spec_discount_rate a i =
     (if discount_rates a \<noteq> PyNone then batch_of (discount_rates a) ! i
      else if discount_factors a \<noteq> PyNone then
        - ln (batch_of (discount_factors a) ! i) / spec_expiry a i
      else 0)"

definition spec_continuous_dividend :: "'a price_args_scheme \<Rightarrow> nat \<Rightarrow> real" where
  "spec_continuous_dividend a i =
     (if continuous_dividends a \<noteq> PyNone then batch_of (continuous_dividends a) ! i else 0)"

definition spec_cost_of_carry :: "'a price_args_scheme \<Rightarrow> nat \<Rightarrow> real" where
  "spec_cost_of_carry a i =
     (if cost_of_carries a \<noteq> PyNone then batch_of (cost_of_carries a) ! i
      else spec_discount_rate a i - spec_continuous_dividend a i)"

definition spec_discount_factor :: "'a price_args_scheme \<Rightarrow> nat \<Rightarrow> real" where
  "spec_discount_factor a i =
     (if discount_factors a \<noteq> PyNone then batch_of (discount_factors a) ! i
      else exp (- spec_discount_rate a i * spec_expiry a i))"

definition spec_forward :: "'a price_args_scheme \<Rightarrow> nat \<Rightarrow> real" where
  "spec_forward a i =
     (if forwards a \<noteq> PyNone then batch_of (forwards a) ! i
      else batch_of (spots a) ! i * exp (spec_cost_of_carry a i * spec_expiry a i))"

definition spec_spot :: "'a price_args_scheme \<Rightarrow> nat \<Rightarrow> real" where
  "spec_spot a i =
     (if forwards a \<noteq> PyNone then
        batch_of (forwards a) ! i * exp (- spec_cost_of_carry a i * spec_expiry a i)
      else batch_of (spots a) ! i)"

text \<open>The batch of \<open>n\<close> elements whose element \<open>i\<close> is \<open>f i\<close>.\<close>

definition tab :: "nat \<Rightarrow> (nat \<Rightarrow> real) \<Rightarrow> tensor" where
  "tab n f = map f [0..<n]"

text \<open>
  The arguments on which lines 32-54 (and 99-121) of the source complete: the exclusivity
  rules hold, no \<^verbatim>\<open>continuous_dividends\<close> are supplied unless \<^verbatim>\<open>cost_of_carries\<close>
  are, and \<^verbatim>\<open>discount_factors\<close>, when supplied, are a tensor and so are the
  \<^verbatim>\<open>expiries\<close>.
\<close>

definition resolvable :: "'a price_args_scheme \<Rightarrow> bool" where
  "resolvable a =
     (check_inputs a = None
      \<and> (continuous_dividends a = PyNone)
      \<and> (discount_factors a = PyNone
           \<or> is_tensor (discount_factors a) \<and> is_tensor (expiries a)))"

section \<open>Unfolding rules and small facts\<close>

lemmas tensor_ops =
  bindE_def elementwise_def t_add_def t_sub_def t_mul_def t_div_def t_neg_def zeros_like_def
  torch_Tensor_def torch_log_def tensor_div_py_def py_mul_tensor_def read_local_def
  return_tensor_def

lemmas resolve_defs =
  check_inputs_def resolve_discount_rates_def resolve_continuous_dividends_def
  resolve_cost_of_carries_def resolve_discount_factors_def exp_neg_carry_def
  prices_spot_forward_def greeks_spot_forward_def

lemmas kernel_defs =
  sqrt_var_of_def d1_of_def undiscounted_calls_def exp_neg_half_square_def sqrt_two_pi_t_def

lemmas greek_defs =
  greeks_kernel_def call_block_def put_block_def call_delta_def call_gamma_def call_theta_def
  call_vega_def call_rho_def put_delta_def put_gamma_def put_theta_def put_vega_def put_rho_def

lemmas example_defs = atm_args_def atm_tensor_args_def with_greek_def price_args.extend_def

lemma bindE_Inl [simp]: "bindE (Inl e) f = Inl e"
  by (simp add: bindE_def)

lemma bindE_Inr [simp]: "bindE (Inr v) f = f v"
  by (simp add: bindE_def)

lemma return_tensor_Inl [simp]: "return_tensor (Inl e) = Inl e"
  by (simp add: return_tensor_def)

lemma return_tensor_Inr [simp]: "return_tensor (Inr t) = Inr (PyTensor t)"
  by (simp add: return_tensor_def)

lemma check_inputs_violated:
  "exclusivity_violated a \<Longrightarrow> \<exists>msg. check_inputs a = Some (ValueError msg)"
  unfolding exclusivity_violated_def check_inputs_def by auto

lemma check_inputs_None_iff: "check_inputs a = None \<longleftrightarrow> \<not> exclusivity_violated a"
  unfolding exclusivity_violated_def check_inputs_def by auto

section \<open>Exclusivity of the alternative arguments\<close>

text \<open>
  Claim C7. Whenever \<^verbatim>\<open>spots\<close> and \<^verbatim>\<open>forwards\<close> are both supplied or both absent, or
  \<^verbatim>\<open>discount_rates\<close> and \<^verbatim>\<open>discount_factors\<close> are both supplied, or
  \<^verbatim>\<open>continuous_dividends\<close> and \<^verbatim>\<open>cost_of_carries\<close> are both supplied, both
  \<^verbatim>\<open>get_vanilla_prices\<close> and \<^verbatim>\<open>get_vanilla_greeks\<close> raise \<^verbatim>\<open>ValueError\<close>. Nothing is
  assumed of the other arguments: the checks come before any conversion or arithmetic, so
  no batch is returned, whatever the batches hold.
\<close>

theorem exclusivity_raises_ValueError:
  assumes "exclusivity_violated p" and "exclusivity_violated g"
  shows "(\<exists>msg. get_vanilla_prices cdf p = Inl (ValueError msg))
       \<and> (\<exists>msg. get_vanilla_greeks cdf g = Inl (ValueError msg))"
proof
  from assms(1) obtain m where "check_inputs p = Some (ValueError m)"
    using check_inputs_violated by blast
  then show "\<exists>msg. get_vanilla_prices cdf p = Inl (ValueError msg)"
    by (simp add: get_vanilla_prices_def)
next
  from assms(2) obtain m where "check_inputs g = Some (ValueError m)"
    using check_inputs_violated by blast
  then show "\<exists>msg. get_vanilla_greeks cdf g = Inl (ValueError msg)"
    by (simp add: get_vanilla_greeks_def)
qed

text \<open>
  The theorem at two batches: a price call with both \<^verbatim>\<open>spots\<close> and \<^verbatim>\<open>forwards\<close>, and a
  Greek call with both \<^verbatim>\<open>discount_rates\<close> and \<^verbatim>\<open>discount_factors\<close>.
\<close>

theorem exclusivity_raises_ValueError_witness:
  "exclusivity_violated (atm_args\<lparr>forwards := PyList [100]\<rparr>)
   \<and> exclusivity_violated
       (with_greek ''delta'' (atm_args\<lparr>discount_rates := PyList [0], discount_factors := PyList [1]\<rparr>))
   \<and> get_vanilla_prices (\<lambda>x. 1 / 2) (atm_args\<lparr>forwards := PyList [100]\<rparr>)
       = Inl (ValueError ''Either spots or forwards must be supplied but not both.'')
   \<and> get_vanilla_greeks (\<lambda>x. 1 / 2)
        (with_greek ''delta'' (atm_args\<lparr>discount_rates := PyList [0], discount_factors := PyList [1]\<rparr>))
       = Inl (ValueError ''At most one of discount_rates and discount_factors may be supplied'')"
proof -
  have p: "exclusivity_violated (atm_args\<lparr>forwards := PyList [100]\<rparr>)"
    by (simp add: exclusivity_violated_def example_defs)
  have g: "exclusivity_violated
       (with_greek ''delta'' (atm_args\<lparr>discount_rates := PyList [0], discount_factors := PyList [1]\<rparr>))"
    by (simp add: exclusivity_violated_def example_defs)
  show ?thesis
    using p g exclusivity_raises_ValueError [OF p g, of "\<lambda>x. 1 / 2"]
    by (simp add: get_vanilla_prices_def get_vanilla_greeks_def check_inputs_def example_defs)
qed

section \<open>Gamma and vega do not depend on the option type\<close>

lemma call_gamma_eq_put_gamma:
  "call_gamma t_strikes t_volatilities t_expiries t_forwards t_spots
     = put_gamma t_strikes t_volatilities t_expiries t_forwards t_spots"
  by (simp add: call_gamma_def put_gamma_def)

lemma call_vega_eq_put_vega:
  "call_vega t_strikes t_volatilities t_expiries t_forwards t_spots
     = put_vega t_strikes t_volatilities t_expiries t_forwards t_spots"
  by (simp add: call_vega_def put_vega_def)

lemma greeks_kernel_gamma:
  "greeks_kernel cdf ''gamma'' (PyBool True) k v t c f s
     = greeks_kernel cdf ''gamma'' (PyBool False) k v t c f s"
  by (simp add: greeks_kernel_def call_block_def put_block_def call_gamma_eq_put_gamma)

lemma greeks_kernel_vega:
  "greeks_kernel cdf ''vega'' (PyBool True) k v t c f s
     = greeks_kernel cdf ''vega'' (PyBool False) k v t c f s"
  by (simp add: greeks_kernel_def call_block_def put_block_def call_vega_eq_put_vega)

text \<open>The flag and the selector play no part in resolving the market parameters.\<close>

lemma resolve_ignores_flag [simp]:
  "check_inputs (a\<lparr>is_call_options := fl\<rparr>) = check_inputs a"
  "resolve_discount_rates (a\<lparr>is_call_options := fl\<rparr>) = resolve_discount_rates a"
  "resolve_continuous_dividends (a\<lparr>is_call_options := fl\<rparr>) = resolve_continuous_dividends a"
  "resolve_cost_of_carries (a\<lparr>is_call_options := fl\<rparr>) = resolve_cost_of_carries a"
  "resolve_discount_factors (a\<lparr>is_call_options := fl\<rparr>) = resolve_discount_factors a"
  "greeks_spot_forward (a\<lparr>is_call_options := fl\<rparr>) = greeks_spot_forward a"
  "prices_spot_forward (a\<lparr>is_call_options := fl\<rparr>) = prices_spot_forward a"
  by (simp_all add: fun_eq_iff check_inputs_def resolve_discount_rates_def
      resolve_continuous_dividends_def resolve_cost_of_carries_def resolve_discount_factors_def
      greeks_spot_forward_def prices_spot_forward_def)

lemma resolve_ignores_greek [simp]:
  "check_inputs (a\<lparr>greek := g\<rparr>) = check_inputs a"
  "resolve_discount_rates (a\<lparr>greek := g\<rparr>) = resolve_discount_rates a"
  "resolve_continuous_dividends (a\<lparr>greek := g\<rparr>) = resolve_continuous_dividends a"
  "resolve_cost_of_carries (a\<lparr>greek := g\<rparr>) = resolve_cost_of_carries a"
  "resolve_discount_factors (a\<lparr>greek := g\<rparr>) = resolve_discount_factors a"
  "greeks_spot_forward (a\<lparr>greek := g\<rparr>) = greeks_spot_forward a"
  by (simp_all add: fun_eq_iff check_inputs_def resolve_discount_rates_def
      resolve_continuous_dividends_def resolve_cost_of_carries_def resolve_discount_factors_def
      greeks_spot_forward_def)

text \<open>
  Claim C8. For every parameter set, \<^verbatim>\<open>get_vanilla_greeks\<close> with the selector
  \<^verbatim>\<open>'gamma'\<close> gives the same result for \<^verbatim>\<open>is_call_options = True\<close> as for
  \<^verbatim>\<open>is_call_options = False\<close>, and likewise with the selector \<^verbatim>\<open>'vega'\<close>: lines
  137-140 and 168-171 compute the same tensor, and so do lines 150-153 and 181-184.
\<close>

theorem gamma_vega_same_for_call_and_put:
  "get_vanilla_greeks cdf (a\<lparr>greek := ''gamma'', is_call_options := PyBool True\<rparr>)
     = get_vanilla_greeks cdf (a\<lparr>greek := ''gamma'', is_call_options := PyBool False\<rparr>)
   \<and> get_vanilla_greeks cdf (a\<lparr>greek := ''vega'', is_call_options := PyBool True\<rparr>)
     = get_vanilla_greeks cdf (a\<lparr>greek := ''vega'', is_call_options := PyBool False\<rparr>)"
  by (simp add: get_vanilla_greeks_def bindE_def greeks_kernel_gamma greeks_kernel_vega
      split: option.split sum.split prod.split)

text \<open>
  At the at-the-money example both option types return the same one-element tensor, for
  gamma and for vega.
\<close>

theorem gamma_vega_same_for_call_and_put_witness:
  "get_vanilla_greeks (\<lambda>x. 1 / 2) (with_greek ''gamma'' atm_args)
     = Inr (PyTensor [exp (- (1 / 200)) / (20 * sqrt (2 * pi_const))])
   \<and> get_vanilla_greeks (\<lambda>x. 1 / 2) (with_greek ''gamma'' (atm_args\<lparr>is_call_options := PyBool False\<rparr>))
     = Inr (PyTensor [exp (- (1 / 200)) / (20 * sqrt (2 * pi_const))])
   \<and> get_vanilla_greeks (\<lambda>x. 1 / 2) (with_greek ''vega'' atm_args)
     = Inr (PyTensor [100 * exp (- (1 / 200))])
   \<and> get_vanilla_greeks (\<lambda>x. 1 / 2) (with_greek ''vega'' (atm_args\<lparr>is_call_options := PyBool False\<rparr>))
     = Inr (PyTensor [100 * exp (- (1 / 200))])"
proof -
  have gamma_call: "get_vanilla_greeks (\<lambda>x. 1 / 2) (with_greek ''gamma'' atm_args)
     = Inr (PyTensor [exp (- (1 / 200)) / (20 * sqrt (2 * pi_const))])"
    by (simp add: get_vanilla_greeks_def greek_defs example_defs resolve_defs kernel_defs
        tensor_ops power2_eq_square)
  have vega_call: "get_vanilla_greeks (\<lambda>x. 1 / 2) (with_greek ''vega'' atm_args)
     = Inr (PyTensor [100 * exp (- (1 / 200))])"
    by (simp add: get_vanilla_greeks_def greek_defs example_defs resolve_defs kernel_defs
        tensor_ops power2_eq_square)
  show ?thesis
    using gamma_call vega_call
      gamma_vega_same_for_call_and_put [of "\<lambda>x. 1 / 2" "with_greek ''delta'' atm_args"]
    by (simp add: example_defs)
qed

section \<open>Where the source diverges from the specification\<close>

text \<open>
  Claim C1. The specification has \<^verbatim>\<open>get_vanilla_prices\<close> return the call price
  \<open>discount_factor * (forward * \<Phi>(d1) - strike * \<Phi>(d2))\<close> for every valid batch with
  \<^verbatim>\<open>spots\<close> supplied. At the at-the-money example with a dividend yield of 2 percent
  supplied, the source returns no price: \<^verbatim>\<open>t_continuous_dividends\<close> is assigned only
  when \<^verbatim>\<open>continuous_dividends\<close> is \<^verbatim>\<open>None\<close> (lines 43-44), and line 49 reads it.
\<close>

theorem call_price_unbound_dividends:
  "get_vanilla_prices cdf (atm_args\<lparr>continuous_dividends := PyList [1 / 50]\<rparr>)
     = Inl (UnboundLocalError ''t_continuous_dividends'')"
  by (simp add: get_vanilla_prices_def example_defs resolve_defs tensor_ops)

text \<open>
  Claim C2. The specification has the put price be
  \<open>discount_factor * (undiscounted_call - (forward - strike))\<close>, also when the discount
  factor is derived from the rate. At the at-the-money example as a put, with a rate of 5
  percent and no \<^verbatim>\<open>discount_factors\<close>, line 72 multiplies the raw argument
  \<^verbatim>\<open>discount_factors\<close>, which is \<^verbatim>\<open>None\<close>, by a tensor: a \<^verbatim>\<open>TypeError\<close>.
\<close>

theorem put_price_multiplies_raw_discount_factors:
  "get_vanilla_prices cdf
     (atm_args\<lparr>discount_rates := PyList [1 / 20], is_call_options := PyBool False\<rparr>)
     = Inl TypeError"
  by (simp add: get_vanilla_prices_def example_defs resolve_defs kernel_defs tensor_ops)

text \<open>
  Claim C3. Put-call parity needs both prices. At the at-the-money example with defaults
  only, the call price is returned and the put price is not (the \<^verbatim>\<open>TypeError\<close> of
  line 72), so the difference of the two does not exist.
\<close>

theorem parity_has_no_put_price:
  "get_vanilla_prices cdf atm_args
     = Inr (PyTensor [100 * cdf (1 / 10) - 100 * cdf (- (1 / 10))])
   \<and> get_vanilla_prices cdf (atm_args\<lparr>is_call_options := PyBool False\<rparr>) = Inl TypeError"
  by (simp add: get_vanilla_prices_def example_defs resolve_defs kernel_defs tensor_ops)

text \<open>
  Claim C4. With \<^verbatim>\<open>continuous_dividends\<close> supplied and \<^verbatim>\<open>cost_of_carries\<close> not, the
  specification has the cost of carry be \<open>discount_rate - continuous_dividend\<close> and the
  call complete. In the source both functions raise \<^verbatim>\<open>UnboundLocalError\<close> (lines 49 and
  116): here a two-element batch with a rate and a dividend yield, for the price and for
  the delta.
\<close>

theorem dividends_raise_in_both_functions:
  "get_vanilla_prices cdf
     \<lparr>strikes = PyList [90, 110], volatilities = PyList [1 / 5, 3 / 10],
      expiries = PyList [1, 2], spots = PyList [100, 100], forwards = PyNone,
      discount_rates = PyList [1 / 20, 1 / 20], continuous_dividends = PyList [1 / 50, 1 / 50],
      cost_of_carries = PyNone, discount_factors = PyNone, is_call_options = PyBool True\<rparr>
     = Inl (UnboundLocalError ''t_continuous_dividends'')
   \<and> get_vanilla_greeks cdf
     \<lparr>strikes = PyList [90, 110], volatilities = PyList [1 / 5, 3 / 10],
      expiries = PyList [1, 2], spots = PyList [100, 100], forwards = PyNone,
      discount_rates = PyList [1 / 20, 1 / 20], continuous_dividends = PyList [1 / 50, 1 / 50],
      cost_of_carries = PyNone, discount_factors = PyNone, is_call_options = PyBool True,
      greek = ''delta''\<rparr>
     = Inl (UnboundLocalError ''t_continuous_dividends'')"
  by (simp add: get_vanilla_prices_def get_vanilla_greeks_def resolve_defs tensor_ops)

text \<open>
  Claim C5. With \<^verbatim>\<open>forwards\<close> supplied and \<^verbatim>\<open>spots\<close> not, the specification derives
  the spot and completes. Line 58 of \<^verbatim>\<open>get_vanilla_prices\<close> is an expression statement
  that reads \<^verbatim>\<open>t_spots\<close> where line 125 of \<^verbatim>\<open>get_vanilla_greeks\<close> assigns it: the
  price call raises \<^verbatim>\<open>UnboundLocalError\<close>, the Greek call on the same batch returns.
\<close>

theorem forwards_raise_in_prices:
  "get_vanilla_prices cdf (atm_args\<lparr>spots := PyNone, forwards := PyList [100]\<rparr>)
     = Inl (UnboundLocalError ''t_spots'')
   \<and> get_vanilla_greeks cdf
       (with_greek ''delta'' (atm_args\<lparr>spots := PyNone, forwards := PyList [100]\<rparr>))
     = Inr (PyTensor [cdf (1 / 10)])"
  by (simp add: get_vanilla_prices_def get_vanilla_greeks_def greek_defs example_defs
      resolve_defs kernel_defs tensor_ops)

text \<open>
  Claim C6. The specification's vega is \<open>spot * sqrt(expiry) * \<phi>(d1)\<close> with the standard
  normal density \<open>\<phi>(x) = exp(-x\<^sup>2/2) / sqrt(2\<pi>)\<close>. Lines 152 and 183 leave the division
  by \<open>sqrt(2\<pi>)\<close> out (lines 139 and 170, for gamma, have it). At the at-the-money example
  \<open>d1\<close> is \<open>1/10\<close>; both option types return \<open>100 * exp(-1/200)\<close>, which is not the
  specification's value.
\<close>

theorem vega_without_density_constant:
  "get_vanilla_greeks cdf (with_greek ''vega'' atm_args)
     = Inr (PyTensor [100 * exp (- (1 / 200))])
   \<and> get_vanilla_greeks cdf (with_greek ''vega'' (atm_args\<lparr>is_call_options := PyBool False\<rparr>))
     = Inr (PyTensor [100 * exp (- (1 / 200))])
   \<and> spec_d1 100 100 (1 / 5) 1 = 1 / 10
   \<and> 100 * exp (- (1 / 200)) \<noteq> spec_vega 100 1 (1 / 10)"
proof -
  have call: "get_vanilla_greeks cdf (with_greek ''vega'' atm_args)
     = Inr (PyTensor [100 * exp (- (1 / 200))])"
    by (simp add: get_vanilla_greeks_def greek_defs example_defs resolve_defs kernel_defs
        tensor_ops power2_eq_square)
  have put: "get_vanilla_greeks cdf
       (with_greek ''vega'' (atm_args\<lparr>is_call_options := PyBool False\<rparr>))
     = Inr (PyTensor [100 * exp (- (1 / 200))])"
    by (simp add: get_vanilla_greeks_def greek_defs example_defs resolve_defs kernel_defs
        tensor_ops power2_eq_square)
  have d1: "spec_d1 100 100 (1 / 5) 1 = 1 / 10"
    by (simp add: spec_d1_def spec_sqrt_var_def power2_eq_square)
  have "(1::real) < 2 * pi"
    using pi_ge_two by linarith
  then have "1 < sqrt (2 * pi)"
    by (simp add: real_less_rsqrt)
  then have "exp (- (1 / 200)) / sqrt (2 * pi) < exp (- (1 / 200) :: real)"
    by (simp add: divide_less_eq)
  then have "100 * exp (- (1 / 200)) \<noteq> spec_vega 100 1 (1 / 10)"
    by (simp add: spec_vega_def std_normal_pdf_def power2_eq_square)
  with call put d1 show ?thesis
    by simp
qed

text \<open>
  Claim C9. The specification has both functions raise \<^verbatim>\<open>ValueError\<close> on a flag that is
  not a boolean. \<^verbatim>\<open>get_vanilla_greeks\<close> ends in that \<^verbatim>\<open>raise\<close> (line 192);
  \<^verbatim>\<open>get_vanilla_prices\<close> has a plain \<^verbatim>\<open>else\<close> (line 69) and prices a put for every
  flag that does not equal \<^verbatim>\<open>True\<close>. With the string \<^verbatim>\<open>'call'\<close> as the flag, on the
  tensor batch, a batch of put prices is returned.
\<close>

theorem prices_accept_any_flag:
  "get_vanilla_prices cdf (atm_tensor_args\<lparr>is_call_options := PyStr ''call''\<rparr>)
     = Inr (PyTensor [100 * cdf (1 / 10) - 100 * cdf (- (1 / 10))])
   \<and> get_vanilla_greeks cdf
       (with_greek ''delta'' (atm_tensor_args\<lparr>is_call_options := PyStr ''call''\<rparr>))
     = Inl (ValueError ''Variable 'is_call_options' can only be Booleans '')"
  by (simp add: get_vanilla_prices_def get_vanilla_greeks_def greek_defs example_defs
      resolve_defs kernel_defs tensor_ops)

text \<open>
  Claim C10. With a selector among the five, a flag that is \<^verbatim>\<open>True\<close> or \<^verbatim>\<open>False\<close> and
  the exclusivity rules kept, the call is to reach one of the \<^verbatim>\<open>return\<close> statements of
  the Greeks. With \<^verbatim>\<open>continuous_dividends\<close> supplied it does not: line 116 raises
  \<^verbatim>\<open>UnboundLocalError\<close> before line 130 is reached, for either flag.
\<close>

theorem greeks_raise_before_any_return:
  "get_vanilla_greeks cdf
     (with_greek ''gamma'' (atm_args\<lparr>continuous_dividends := PyList [0]\<rparr>))
     = Inl (UnboundLocalError ''t_continuous_dividends'')
   \<and> get_vanilla_greeks cdf
     (with_greek ''rho''
        (atm_args\<lparr>continuous_dividends := PyList [0], is_call_options := PyBool False\<rparr>))
     = Inl (UnboundLocalError ''t_continuous_dividends'')"
  by (simp add: get_vanilla_greeks_def example_defs resolve_defs tensor_ops)

section \<open>How far each divergence reaches\<close>

text \<open>
  The failing calls above are instances of general facts. With \<^verbatim>\<open>continuous_dividends\<close>
  supplied and \<^verbatim>\<open>cost_of_carries\<close> not, neither function returns, whatever else is
  supplied.
\<close>

lemma dividends_unbound:
  "continuous_dividends a \<noteq> PyNone \<Longrightarrow> cost_of_carries a = PyNone \<Longrightarrow>
     resolve_cost_of_carries a r (resolve_continuous_dividends a v)
       = Inl (UnboundLocalError ''t_continuous_dividends'')"
  by (simp add: resolve_cost_of_carries_def resolve_continuous_dividends_def read_local_def)

lemma prices_never_return_with_dividends:
  assumes "continuous_dividends a \<noteq> PyNone" and "cost_of_carries a = PyNone"
  shows "get_vanilla_prices cdf a \<noteq> Inr r"
  using assms
  by (simp add: get_vanilla_prices_def dividends_unbound bindE_def
      split: option.split sum.split)

lemma greeks_never_return_with_dividends:
  assumes "continuous_dividends a \<noteq> PyNone" and "cost_of_carries a = PyNone"
  shows "get_vanilla_greeks cdf a \<noteq> Inr r"
  using assms
  by (simp add: get_vanilla_greeks_def dividends_unbound bindE_def
      split: option.split sum.split)

text \<open>With \<^verbatim>\<open>forwards\<close> supplied, \<^verbatim>\<open>get_vanilla_prices\<close> never returns.\<close>

lemma prices_spot_forward_unbound:
  "forwards a \<noteq> PyNone \<Longrightarrow> prices_spot_forward a c t \<noteq> Inr r"
  by (simp add: prices_spot_forward_def read_local_def bindE_def split: sum.split)

lemma prices_never_return_with_forwards:
  assumes "forwards a \<noteq> PyNone"
  shows "get_vanilla_prices cdf a \<noteq> Inr r"
  using assms prices_spot_forward_unbound [of a]
  by (simp add: get_vanilla_prices_def bindE_def split: option.split sum.split)

text \<open>
  Without \<^verbatim>\<open>discount_factors\<close>, and with a tensor of them only, does
  \<^verbatim>\<open>get_vanilla_prices\<close> return a put price: for every flag that does not equal
  \<^verbatim>\<open>True\<close> the result comes from line 72.
\<close>

lemma prices_put_needs_tensor_discount_factors:
  assumes "\<not> py_eq_bool (is_call_options a) True"
    and "get_vanilla_prices cdf a = Inr r"
  shows "\<exists>d. discount_factors a = PyTensor d"
  using assms
  by (cases "discount_factors a")
     (simp_all add: get_vanilla_prices_def py_mul_tensor_def bindE_def return_tensor_def
        split: option.splits sum.splits prod.splits)

text \<open>
  \<^verbatim>\<open>get_vanilla_prices\<close> raises no \<^verbatim>\<open>ValueError\<close> once the exclusivity rules hold: no
  value of the flag is rejected.
\<close>

lemma elementwise_error: "elementwise f xs ys = Inl e \<Longrightarrow> e = RuntimeError"
  by (simp add: elementwise_def split: if_splits)

lemma elementwise_no_ValueError [simp]: "elementwise f xs ys \<noteq> Inl (ValueError m)"
  using elementwise_error by fastforce

lemma torch_Tensor_no_ValueError [simp]: "torch_Tensor v \<noteq> Inl (ValueError m)"
  by (simp add: torch_Tensor_def split: pyval.split)

lemma bindE_no_ValueError:
  "m \<noteq> Inl (ValueError msg) \<Longrightarrow> (\<And>v. f v \<noteq> Inl (ValueError msg)) \<Longrightarrow>
     bindE m f \<noteq> Inl (ValueError msg)"
  by (cases m) simp_all

lemma return_tensor_no_ValueError:
  "m \<noteq> Inl (ValueError msg) \<Longrightarrow> return_tensor m \<noteq> Inl (ValueError msg)"
  by (cases m) simp_all

lemma return_tensor_not_None [simp]: "return_tensor m \<noteq> Inr PyNone"
  by (cases m) simp_all

lemma tensor_ops_no_ValueError [simp]:
  "t_add xs ys \<noteq> Inl (ValueError m)" "t_sub xs ys \<noteq> Inl (ValueError m)"
  "t_mul xs ys \<noteq> Inl (ValueError m)" "t_div xs ys \<noteq> Inl (ValueError m)"
  by (simp_all add: t_add_def t_sub_def t_mul_def t_div_def)

lemma terms_no_ValueError [simp]:
  "sqrt_var_of v t \<noteq> Inl (ValueError m)"
  "d1_of f k s \<noteq> Inl (ValueError m)"
  "exp_neg_carry c t \<noteq> Inl (ValueError m)"
  "undiscounted_calls cdf f k d1 d2 \<noteq> Inl (ValueError m)"
  by (simp_all add: sqrt_var_of_def d1_of_def exp_neg_carry_def undiscounted_calls_def
      bindE_no_ValueError)

lemma greeks_no_ValueError [simp]:
  "call_delta cdf k v t f \<noteq> Inl (ValueError m)"
  "call_gamma k v t f s \<noteq> Inl (ValueError m)"
  "call_theta cdf k v t c f s \<noteq> Inl (ValueError m)"
  "call_vega k v t f s \<noteq> Inl (ValueError m)"
  "call_rho cdf k v t c f \<noteq> Inl (ValueError m)"
  "put_delta cdf k v t f \<noteq> Inl (ValueError m)"
  "put_gamma k v t f s \<noteq> Inl (ValueError m)"
  "put_theta cdf k v t c f s \<noteq> Inl (ValueError m)"
  "put_vega k v t f s \<noteq> Inl (ValueError m)"
  "put_rho cdf k v t c f \<noteq> Inl (ValueError m)"
  by (simp_all add: call_delta_def call_gamma_def call_theta_def call_vega_def call_rho_def
      put_delta_def put_gamma_def put_theta_def put_vega_def put_rho_def bindE_no_ValueError)

text \<open>
  The kernel of the Greeks with a selector among the five and a flag that is \<^verbatim>\<open>True\<close> or
  \<^verbatim>\<open>False\<close>: the result is that of a \<^verbatim>\<open>return\<close> statement of lines 131-190. It is
  neither the \<^verbatim>\<open>ValueError\<close> of line 192 nor the \<^verbatim>\<open>None\<close> of falling off the end.
\<close>

lemma greeks_kernel_returns_a_greek:
  assumes "g \<in> set [''delta'', ''gamma'', ''theta'', ''vega'', ''rho'']"
  shows "greeks_kernel cdf g (PyBool b) k v t c f s \<noteq> Inl (ValueError m)
       \<and> greeks_kernel cdf g (PyBool b) k v t c f s \<noteq> Inr PyNone"
  using assms
  by (cases b)
     (auto simp add: greeks_kernel_def call_block_def put_block_def return_tensor_no_ValueError)

lemma raw_ops_no_ValueError [simp]:
  "torch_log x \<noteq> Inl (ValueError m)"
  "tensor_div_py xs x \<noteq> Inl (ValueError m)"
  "py_mul_tensor x xs \<noteq> Inl (ValueError m)"
  "read_local n l \<noteq> Inl (ValueError m)"
  by (simp_all add: torch_log_def tensor_div_py_def py_mul_tensor_def read_local_def
      split: pyval.split option.split)

lemma resolve_no_ValueError [simp]:
  "resolve_discount_rates a v \<noteq> Inl (ValueError m)"
  "resolve_cost_of_carries a r d \<noteq> Inl (ValueError m)"
  "resolve_discount_factors a r t \<noteq> Inl (ValueError m)"
  "greeks_spot_forward a c t \<noteq> Inl (ValueError m)"
  "prices_spot_forward a c t \<noteq> Inl (ValueError m)"
  by (simp_all add: resolve_discount_rates_def resolve_cost_of_carries_def
      resolve_discount_factors_def greeks_spot_forward_def prices_spot_forward_def
      bindE_no_ValueError)

lemma bindE_not_None:
  "(\<And>v. f v \<noteq> Inr PyNone) \<Longrightarrow> bindE m f \<noteq> Inr PyNone"
  by (cases m) simp_all

lemma check_inputs_message:
  "check_inputs a = Some e \<Longrightarrow>
     e \<noteq> ValueError ''Variable 'is_call_options' can only be Booleans ''"
  by (auto simp add: check_inputs_def split: if_splits)

lemma trailing_error_branch_unreachable:
  assumes "greek a \<in> set [''delta'', ''gamma'', ''theta'', ''vega'', ''rho'']"
    and "is_call_options a = PyBool b"
  shows "get_vanilla_greeks cdf a
           \<noteq> Inl (ValueError ''Variable 'is_call_options' can only be Booleans '')
       \<and> get_vanilla_greeks cdf a \<noteq> Inr PyNone"
proof (cases "check_inputs a")
  case (Some e)
  with assms(1) check_inputs_message [OF Some] show ?thesis
    by (simp add: get_vanilla_greeks_def del: set_simps list.set)
next
  case None
  note kernel = greeks_kernel_returns_a_greek [OF assms(1), of cdf b]
  have "get_vanilla_greeks cdf a
          \<noteq> Inl (ValueError ''Variable 'is_call_options' can only be Booleans '')"
    using assms None kernel
    by (simp add: get_vanilla_greeks_def bindE_no_ValueError split_beta
        del: set_simps list.set)
  moreover have "get_vanilla_greeks cdf a \<noteq> Inr PyNone"
    using assms None kernel
    by (simp add: get_vanilla_greeks_def bindE_not_None split_beta del: set_simps list.set)
  ultimately show ?thesis
    by simp
qed

section \<open>Batches of one length, element by element\<close>

lemma length_tab [simp]: "length (tab n f) = n"
  by (simp add: tab_def)

lemma nth_tab [simp]: "i < n \<Longrightarrow> tab n f ! i = f i"
  by (simp add: tab_def)

lemma tab_nth: "length xs = n \<Longrightarrow> xs = tab n (\<lambda>i. xs ! i)"
  by (auto simp add: tab_def intro: nth_equalityI)

lemma tab_cong: "(\<And>i. i < n \<Longrightarrow> f i = g i) \<Longrightarrow> tab n f = tab n g"
  by (simp add: tab_def)

lemma map_tab [simp]: "map g (tab n f) = tab n (\<lambda>i. g (f i))"
  by (simp add: tab_def)

lemma elementwise_tab [simp]:
  "elementwise g (tab n f) (tab n h) = Inr (tab n (\<lambda>i. g (f i) (h i)))"
  by (auto simp add: elementwise_def tab_def intro: nth_equalityI)

lemma tensor_ops_tab [simp]:
  "t_add (tab n f) (tab n h) = Inr (tab n (\<lambda>i. f i + h i))"
  "t_sub (tab n f) (tab n h) = Inr (tab n (\<lambda>i. f i - h i))"
  "t_mul (tab n f) (tab n h) = Inr (tab n (\<lambda>i. f i * h i))"
  "t_div (tab n f) (tab n h) = Inr (tab n (\<lambda>i. f i / h i))"
  "t_neg (tab n f) = tab n (\<lambda>i. - f i)"
  "zeros_like (tab n f) = tab n (\<lambda>i. 0)"
  by (simp_all add: t_add_def t_sub_def t_mul_def t_div_def t_neg_def zeros_like_def)

lemma torch_Tensor_supplied:
  assumes "v \<noteq> PyNone" and "fits n v"
  shows "torch_Tensor v = Inr (tab n (\<lambda>i. batch_of v ! i))"
proof -
  from assms have "length (batch_of v) = n"
    by (simp add: fits_def)
  then have "batch_of v = tab n (\<lambda>i. batch_of v ! i)"
    by (rule tab_nth)
  moreover from assms(1) have "torch_Tensor v = Inr (batch_of v)"
    by (cases v) (simp_all add: torch_Tensor_def batch_of_def)
  ultimately show ?thesis
    by simp
qed

lemma tensor_supplied:
  assumes "is_tensor v" and "fits n v"
  shows "v = PyTensor (tab n (\<lambda>i. batch_of v ! i))"
proof -
  from assms obtain xs where v: "v = PyTensor xs"
    by (cases v) (simp_all add: is_tensor_def)
  with assms(2) have "length xs = n"
    by (simp add: fits_def batch_of_def)
  then have "xs = tab n (\<lambda>i. xs ! i)"
    by (rule tab_nth)
  with v show ?thesis
    by (simp add: batch_of_def)
qed

section \<open>The source resolves the parameters as the specification does, where it completes\<close>

lemma spec_required_batches:
  "spec_strike a = (\<lambda>i. batch_of (strikes a) ! i)"
  "spec_volatility a = (\<lambda>i. batch_of (volatilities a) ! i)"
  "spec_expiry a = (\<lambda>i. batch_of (expiries a) ! i)"
  by (simp_all add: fun_eq_iff spec_strike_def spec_volatility_def spec_expiry_def)

lemma required_batches:
  assumes "well_formed a n"
  shows "torch_Tensor (strikes a) = Inr (tab n (spec_strike a))"
    and "torch_Tensor (volatilities a) = Inr (tab n (spec_volatility a))"
    and "torch_Tensor (expiries a) = Inr (tab n (spec_expiry a))"
  using assms
  by (simp_all add: well_formed_def torch_Tensor_supplied spec_required_batches)

lemma resolve_discount_rates_spec:
  assumes wf: "well_formed a n" and ok: "resolvable a"
  shows "resolve_discount_rates a (tab n v) = Inr (tab n (spec_discount_rate a))"
proof (cases "discount_rates a = PyNone")
  case False
  with wf have "torch_Tensor (discount_rates a)
      = Inr (tab n (\<lambda>i. batch_of (discount_rates a) ! i))"
    by (simp add: well_formed_def torch_Tensor_supplied)
  moreover from False have "spec_discount_rate a = (\<lambda>i. batch_of (discount_rates a) ! i)"
    by (simp add: spec_discount_rate_def fun_eq_iff)
  ultimately show ?thesis
    using False by (simp add: resolve_discount_rates_def)
next
  case no_rates: True
  show ?thesis
  proof (cases "discount_factors a = PyNone")
    case True
    with no_rates have "spec_discount_rate a = (\<lambda>i. 0)"
      by (simp add: spec_discount_rate_def fun_eq_iff)
    with no_rates True show ?thesis
      by (simp add: resolve_discount_rates_def)
  next
    case False
    with ok have "is_tensor (discount_factors a)" and "is_tensor (expiries a)"
      by (simp_all add: resolvable_def)
    with wf have d: "discount_factors a
        = PyTensor (tab n (\<lambda>i. batch_of (discount_factors a) ! i))"
      and t: "expiries a = PyTensor (tab n (spec_expiry a))"
      using tensor_supplied [of "discount_factors a" n] tensor_supplied [of "expiries a" n]
      by (simp_all add: well_formed_def spec_required_batches)
    have "bindE (torch_log (discount_factors a)) (\<lambda>l. tensor_div_py (t_neg l) (expiries a))
        = Inr (tab n (\<lambda>i. - ln (batch_of (discount_factors a) ! i) / spec_expiry a i))"
      by (subst d, subst t) (simp add: torch_log_def tensor_div_py_def)
    moreover from no_rates False have "spec_discount_rate a
        = (\<lambda>i. - ln (batch_of (discount_factors a) ! i) / spec_expiry a i)"
      by (simp add: spec_discount_rate_def fun_eq_iff)
    ultimately show ?thesis
      using no_rates False by (simp add: resolve_discount_rates_def)
  qed
qed

lemma resolve_cost_of_carries_spec:
  assumes wf: "well_formed a n" and ok: "resolvable a"
  shows "resolve_cost_of_carries a (tab n (spec_discount_rate a))
           (resolve_continuous_dividends a (tab n v))
         = Inr (tab n (spec_cost_of_carry a))"
proof (cases "cost_of_carries a = PyNone")
  case False
  with wf have "torch_Tensor (cost_of_carries a)
      = Inr (tab n (\<lambda>i. batch_of (cost_of_carries a) ! i))"
    by (simp add: well_formed_def torch_Tensor_supplied)
  moreover from False have "spec_cost_of_carry a = (\<lambda>i. batch_of (cost_of_carries a) ! i)"
    by (simp add: spec_cost_of_carry_def fun_eq_iff)
  ultimately show ?thesis
    using False by (simp add: resolve_cost_of_carries_def)
next
  case True
  moreover from ok have "continuous_dividends a = PyNone"
    by (simp add: resolvable_def)
  ultimately have "spec_cost_of_carry a = (\<lambda>i. spec_discount_rate a i - 0)"
    and "cost_of_carries a = PyNone" and "continuous_dividends a = PyNone"
    by (simp_all add: spec_cost_of_carry_def spec_continuous_dividend_def fun_eq_iff)
  then show ?thesis
    by (simp add: resolve_cost_of_carries_def resolve_continuous_dividends_def read_local_def)
qed

lemma resolve_discount_factors_spec:
  assumes wf: "well_formed a n"
  shows "resolve_discount_factors a (tab n (spec_discount_rate a)) (tab n (spec_expiry a))
         = Inr (tab n (spec_discount_factor a))"
proof (cases "discount_factors a = PyNone")
  case False
  with wf have "torch_Tensor (discount_factors a)
      = Inr (tab n (\<lambda>i. batch_of (discount_factors a) ! i))"
    by (simp add: well_formed_def torch_Tensor_supplied)
  moreover from False have "spec_discount_factor a = (\<lambda>i. batch_of (discount_factors a) ! i)"
    by (simp add: spec_discount_factor_def fun_eq_iff)
  ultimately show ?thesis
    using False by (simp add: resolve_discount_factors_def)
next
  case True
  then have "spec_discount_factor a
      = (\<lambda>i. exp (- spec_discount_rate a i * spec_expiry a i))"
    by (simp add: spec_discount_factor_def fun_eq_iff)
  with True show ?thesis
    by (simp add: resolve_discount_factors_def)
qed

lemma prices_spot_forward_spec:
  assumes wf: "well_formed a n" and ok: "resolvable a" and no_forwards: "forwards a = PyNone"
  shows "prices_spot_forward a (tab n (spec_cost_of_carry a)) (tab n (spec_expiry a))
         = Inr (tab n (spec_forward a), Some (tab n (spec_spot a)))"
proof -
  from ok no_forwards have "spots a \<noteq> PyNone"
    by (auto simp add: resolvable_def check_inputs_def split: if_splits)
  with wf have "torch_Tensor (spots a) = Inr (tab n (\<lambda>i. batch_of (spots a) ! i))"
    by (simp add: well_formed_def torch_Tensor_supplied)
  moreover from no_forwards have "spec_spot a = (\<lambda>i. batch_of (spots a) ! i)"
    and "spec_forward a
      = (\<lambda>i. batch_of (spots a) ! i * exp (spec_cost_of_carry a i * spec_expiry a i))"
    by (simp_all add: spec_spot_def spec_forward_def fun_eq_iff)
  ultimately show ?thesis
    using no_forwards by (simp add: prices_spot_forward_def)
qed

lemma greeks_spot_forward_spec:
  assumes wf: "well_formed a n" and ok: "resolvable a"
  shows "greeks_spot_forward a (tab n (spec_cost_of_carry a)) (tab n (spec_expiry a))
         = Inr (tab n (spec_forward a), tab n (spec_spot a))"
proof (cases "forwards a = PyNone")
  case True
  with ok have "spots a \<noteq> PyNone"
    by (auto simp add: resolvable_def check_inputs_def split: if_splits)
  with wf have "torch_Tensor (spots a) = Inr (tab n (\<lambda>i. batch_of (spots a) ! i))"
    by (simp add: well_formed_def torch_Tensor_supplied)
  moreover from True have "spec_spot a = (\<lambda>i. batch_of (spots a) ! i)"
    and "spec_forward a
      = (\<lambda>i. batch_of (spots a) ! i * exp (spec_cost_of_carry a i * spec_expiry a i))"
    by (simp_all add: spec_spot_def spec_forward_def fun_eq_iff)
  ultimately show ?thesis
    using True by (simp add: greeks_spot_forward_def)
next
  case False
  with wf have "torch_Tensor (forwards a) = Inr (tab n (\<lambda>i. batch_of (forwards a) ! i))"
    by (simp add: well_formed_def torch_Tensor_supplied)
  moreover from False have "spec_forward a = (\<lambda>i. batch_of (forwards a) ! i)"
    and "spec_spot a
      = (\<lambda>i. batch_of (forwards a) ! i * exp (- spec_cost_of_carry a i * spec_expiry a i))"
    by (simp_all add: spec_spot_def spec_forward_def fun_eq_iff)
  ultimately show ?thesis
    using False by (simp add: greeks_spot_forward_def exp_neg_carry_def)
qed

section \<open>The Black-Scholes terms, element by element\<close>

lemma sqrt_var_of_tab:
  "sqrt_var_of (tab n v) (tab n t) = Inr (tab n (\<lambda>i. spec_sqrt_var (v i) (t i)))"
  by (simp add: sqrt_var_of_def spec_sqrt_var_def)

lemma d1_of_tab:
  "d1_of (tab n f) (tab n k) (tab n (\<lambda>i. spec_sqrt_var (v i) (t i)))
     = Inr (tab n (\<lambda>i. spec_d1 (f i) (k i) (v i) (t i)))"
  by (simp add: d1_of_def spec_d1_def power2_eq_square)

lemma undiscounted_calls_tab:
  "undiscounted_calls cdf (tab n f) (tab n k) (tab n d1) (tab n d2)
     = Inr (tab n (\<lambda>i. f i * cdf (d1 i) - k i * cdf (d2 i)))"
  by (simp add: undiscounted_calls_def)

section \<open>What the source computes where it completes\<close>

text \<open>
  \<^verbatim>\<open>get_vanilla_prices\<close> with \<^verbatim>\<open>spots\<close> supplied, on arguments that resolve: lines
  63-66 compute the specification's undiscounted call price of every element.
\<close>

lemma prices_resolved:
  assumes wf: "well_formed a n" and ok: "resolvable a" and no_forwards: "forwards a = PyNone"
  shows "get_vanilla_prices cdf a =
     (if py_eq_bool (is_call_options a) True then
        Inr (PyTensor (tab n (\<lambda>i. spec_call_price cdf (spec_discount_factor a i)
          (spec_forward a i) (spec_strike a i) (spec_volatility a i) (spec_expiry a i))))
      else
        return_tensor (py_mul_tensor (discount_factors a)
          (tab n (\<lambda>i. spec_undiscounted_call cdf (spec_forward a i) (spec_strike a i)
                    (spec_volatility a i) (spec_expiry a i)
                  - (spec_forward a i - spec_strike a i)))))"
proof -
  from ok have "check_inputs a = None"
    by (simp add: resolvable_def)
  then show ?thesis
    by (simp add: get_vanilla_prices_def required_batches [OF wf]
        resolve_discount_rates_spec [OF wf ok] resolve_cost_of_carries_spec [OF wf ok]
        resolve_discount_factors_spec [OF wf] prices_spot_forward_spec [OF wf ok no_forwards]
        sqrt_var_of_tab d1_of_tab undiscounted_calls_tab spec_call_price_def
        spec_undiscounted_call_def spec_d2_def)
qed

text \<open>
  The call price of the specification (the part of claim C1 that the source keeps): with
  \<^verbatim>\<open>spots\<close> supplied, no \<^verbatim>\<open>continuous_dividends\<close>, and \<^verbatim>\<open>discount_factors\<close> absent
  or a tensor, a flag equal to \<^verbatim>\<open>True\<close> returns
  \<open>discount_factor * (forward * \<Phi>(d1) - strike * \<Phi>(d2))\<close> for every element.
\<close>

lemma prices_call_formula:
  assumes "well_formed a n" and "resolvable a" and "forwards a = PyNone"
    and "py_eq_bool (is_call_options a) True"
  shows "get_vanilla_prices cdf a =
     Inr (PyTensor (tab n (\<lambda>i. spec_call_price cdf (spec_discount_factor a i)
       (spec_forward a i) (spec_strike a i) (spec_volatility a i) (spec_expiry a i))))"
  using assms by (simp add: prices_resolved)

text \<open>
  The put price of the specification (the part of claim C2 that the source keeps): as
  before, and \<^verbatim>\<open>discount_factors\<close> supplied as a tensor.
\<close>

lemma prices_put_formula:
  assumes wf: "well_formed a n" and ok: "resolvable a" and no_forwards: "forwards a = PyNone"
    and flag: "\<not> py_eq_bool (is_call_options a) True"
    and factors: "is_tensor (discount_factors a)"
  shows "get_vanilla_prices cdf a =
     Inr (PyTensor (tab n (\<lambda>i. spec_put_price cdf (spec_discount_factor a i)
       (spec_forward a i) (spec_strike a i) (spec_volatility a i) (spec_expiry a i))))"
proof -
  from factors have supplied: "discount_factors a \<noteq> PyNone"
    by (auto simp add: is_tensor_def)
  from wf factors have "discount_factors a
      = PyTensor (tab n (\<lambda>i. batch_of (discount_factors a) ! i))"
    using tensor_supplied [of "discount_factors a" n] by (simp add: well_formed_def)
  moreover from supplied have "spec_discount_factor a
      = (\<lambda>i. batch_of (discount_factors a) ! i)"
    by (simp add: spec_discount_factor_def fun_eq_iff)
  ultimately have "discount_factors a = PyTensor (tab n (spec_discount_factor a))"
    by simp
  then have "py_mul_tensor (discount_factors a) (tab n f)
      = Inr (tab n (\<lambda>i. spec_discount_factor a i * f i))" for f
    by (simp add: py_mul_tensor_def)
  with flag show ?thesis
    by (simp add: prices_resolved [OF wf ok no_forwards] spec_put_price_def)
qed

text \<open>The specification's parameters do not look at the flag.\<close>

lemma spec_ignores_flag [simp]:
  "well_formed (a\<lparr>is_call_options := fl\<rparr>) n = well_formed a n"
  "resolvable (a\<lparr>is_call_options := fl\<rparr>) = resolvable a"
  "spec_strike (a\<lparr>is_call_options := fl\<rparr>) = spec_strike a"
  "spec_volatility (a\<lparr>is_call_options := fl\<rparr>) = spec_volatility a"
  "spec_expiry (a\<lparr>is_call_options := fl\<rparr>) = spec_expiry a"
  "spec_discount_rate (a\<lparr>is_call_options := fl\<rparr>) = spec_discount_rate a"
  "spec_continuous_dividend (a\<lparr>is_call_options := fl\<rparr>) = spec_continuous_dividend a"
  "spec_cost_of_carry (a\<lparr>is_call_options := fl\<rparr>) = spec_cost_of_carry a"
  "spec_discount_factor (a\<lparr>is_call_options := fl\<rparr>) = spec_discount_factor a"
  "spec_forward (a\<lparr>is_call_options := fl\<rparr>) = spec_forward a"
  "spec_spot (a\<lparr>is_call_options := fl\<rparr>) = spec_spot a"
  by (simp_all add: fun_eq_iff well_formed_def resolvable_def spec_strike_def
      spec_volatility_def spec_expiry_def spec_discount_rate_def spec_continuous_dividend_def
      spec_cost_of_carry_def spec_discount_factor_def spec_forward_def spec_spot_def)

text \<open>
  Put-call parity (the part of claim C3 that the source keeps): where both prices are
  returned, that is with \<^verbatim>\<open>discount_factors\<close> supplied as a tensor, their difference is
  \<open>discount_factor * (forward - strike)\<close> in every element.
\<close>

lemma put_call_parity_with_tensor_discount_factors:
  assumes wf: "well_formed a n" and ok: "resolvable a" and no_forwards: "forwards a = PyNone"
    and factors: "is_tensor (discount_factors a)"
  obtains c p where
    "get_vanilla_prices cdf (a\<lparr>is_call_options := PyBool True\<rparr>) = Inr (PyTensor c)"
    and "get_vanilla_prices cdf (a\<lparr>is_call_options := PyBool False\<rparr>) = Inr (PyTensor p)"
    and "length c = n" and "length p = n"
    and "\<And>i. i < n \<Longrightarrow>
           c ! i - p ! i = spec_discount_factor a i * (spec_forward a i - spec_strike a i)"
proof
  show "get_vanilla_prices cdf (a\<lparr>is_call_options := PyBool True\<rparr>) =
     Inr (PyTensor (tab n (\<lambda>i. spec_call_price cdf (spec_discount_factor a i)
       (spec_forward a i) (spec_strike a i) (spec_volatility a i) (spec_expiry a i))))"
    using prices_call_formula [of "a\<lparr>is_call_options := PyBool True\<rparr>" n cdf]
      wf ok no_forwards by simp
  show "get_vanilla_prices cdf (a\<lparr>is_call_options := PyBool False\<rparr>) =
     Inr (PyTensor (tab n (\<lambda>i. spec_put_price cdf (spec_discount_factor a i)
       (spec_forward a i) (spec_strike a i) (spec_volatility a i) (spec_expiry a i))))"
    using prices_put_formula [of "a\<lparr>is_call_options := PyBool False\<rparr>" n cdf]
      wf ok no_forwards factors by simp
  show "\<And>i. i < n \<Longrightarrow>
      tab n (\<lambda>i. spec_call_price cdf (spec_discount_factor a i)
        (spec_forward a i) (spec_strike a i) (spec_volatility a i) (spec_expiry a i)) ! i
      - tab n (\<lambda>i. spec_put_price cdf (spec_discount_factor a i)
        (spec_forward a i) (spec_strike a i) (spec_volatility a i) (spec_expiry a i)) ! i
      = spec_discount_factor a i * (spec_forward a i - spec_strike a i)"
    by (simp add: spec_call_price_def spec_put_price_def algebra_simps)
qed simp_all

text \<open>
  \<^verbatim>\<open>get_vanilla_greeks\<close> on arguments that resolve, with \<^verbatim>\<open>spots\<close> or with
  \<^verbatim>\<open>forwards\<close>: the kernel runs on the specification's parameters.
\<close>

lemma greeks_resolved:
  assumes wf: "well_formed a n" and ok: "resolvable a"
    and selector: "greek a \<in> set [''delta'', ''gamma'', ''theta'', ''vega'', ''rho'']"
  shows "get_vanilla_greeks cdf a =
     greeks_kernel cdf (greek a) (is_call_options a) (tab n (spec_strike a))
       (tab n (spec_volatility a)) (tab n (spec_expiry a)) (tab n (spec_cost_of_carry a))
       (tab n (spec_forward a)) (tab n (spec_spot a))"
proof -
  from ok have "check_inputs a = None"
    by (simp add: resolvable_def)
  with selector show ?thesis
    by (simp add: get_vanilla_greeks_def required_batches [OF wf]
        resolve_discount_rates_spec [OF wf ok] resolve_cost_of_carries_spec [OF wf ok]
        resolve_discount_factors_spec [OF wf] greeks_spot_forward_spec [OF wf ok]
        del: set_simps list.set)
qed

text \<open>
  Vega as the source computes it (claim C6): \<open>spot * sqrt(expiry) * exp(-d1\<^sup>2/2)\<close>, for a
  call and for a put. That is \<open>sqrt(2\<pi>)\<close> times the vega of the specification.
\<close>

lemma vega_formula:
  assumes wf: "well_formed a n" and ok: "resolvable a"
    and selector: "greek a = ''vega''" and flag: "is_call_options a = PyBool b"
  shows "get_vanilla_greeks cdf a =
     Inr (PyTensor (tab n (\<lambda>i. spec_spot a i * sqrt (spec_expiry a i)
       * exp (- (spec_d1 (spec_forward a i) (spec_strike a i) (spec_volatility a i)
                   (spec_expiry a i))\<^sup>2 / 2))))"
  using selector flag
  by (cases b)
     (simp_all add: greeks_resolved [OF wf ok] greeks_kernel_def call_block_def put_block_def
        call_vega_def put_vega_def sqrt_var_of_tab d1_of_tab exp_neg_half_square_def)

lemma code_vega_is_scaled_spec_vega:
  "spot * sqrt expiry * exp (- d1\<^sup>2 / 2) = sqrt (2 * pi) * spec_vega spot expiry d1"
  by (simp add: spec_vega_def std_normal_pdf_def)

text \<open>Delta as the source computes it: \<open>\<Phi>(d1)\<close> for a call, \<open>\<Phi>(d1) - 1\<close> for a put.\<close>

lemma delta_formula:
  assumes wf: "well_formed a n" and ok: "resolvable a"
    and selector: "greek a = ''delta''" and flag: "is_call_options a = PyBool b"
  shows "get_vanilla_greeks cdf a =
     Inr (PyTensor (tab n (\<lambda>i.
       cdf (spec_d1 (spec_forward a i) (spec_strike a i) (spec_volatility a i)
              (spec_expiry a i)) - (if b then 0 else 1))))"
  using selector flag
  by (cases b)
     (simp_all add: greeks_resolved [OF wf ok] greeks_kernel_def call_block_def put_block_def
        call_delta_def put_delta_def sqrt_var_of_tab d1_of_tab)

text \<open>
  A flag that equals neither \<^verbatim>\<open>True\<close> nor \<^verbatim>\<open>False\<close> (claim C9): where the arguments
  resolve, \<^verbatim>\<open>get_vanilla_greeks\<close> raises the \<^verbatim>\<open>ValueError\<close> of line 192.
\<close>

lemma greeks_reject_other_flags:
  assumes wf: "well_formed a n" and ok: "resolvable a"
    and selector: "greek a \<in> set [''delta'', ''gamma'', ''theta'', ''vega'', ''rho'']"
    and flag: "\<not> py_eq_bool (is_call_options a) True" "\<not> py_eq_bool (is_call_options a) False"
  shows "get_vanilla_greeks cdf a
           = Inl (ValueError ''Variable 'is_call_options' can only be Booleans '')"
  using flag by (simp add: greeks_resolved [OF wf ok selector] greeks_kernel_def)

text \<open>
  Forwards in \<^verbatim>\<open>get_vanilla_greeks\<close> (the part of claim C5 that the source keeps): a
  call with \<^verbatim>\<open>forwards\<close> gives the result of the call that supplies the derived spots
  \<open>forward * exp(-cost_of_carry * expiry)\<close> instead.
\<close>

lemma spec_ignores_spot_forward:
  "spec_strike (a\<lparr>spots := s, forwards := f\<rparr>) = spec_strike a"
  "spec_volatility (a\<lparr>spots := s, forwards := f\<rparr>) = spec_volatility a"
  "spec_expiry (a\<lparr>spots := s, forwards := f\<rparr>) = spec_expiry a"
  "spec_cost_of_carry (a\<lparr>spots := s, forwards := f\<rparr>) = spec_cost_of_carry a"
  by (simp_all add: fun_eq_iff spec_strike_def spec_volatility_def spec_expiry_def
      spec_discount_rate_def spec_continuous_dividend_def spec_cost_of_carry_def)

lemma greeks_forwards_as_derived_spots:
  assumes wf: "well_formed a n" and ok: "resolvable a"
    and selector: "greek a \<in> set [''delta'', ''gamma'', ''theta'', ''vega'', ''rho'']"
    and supplied: "forwards a \<noteq> PyNone"
  shows "get_vanilla_greeks cdf a
         = get_vanilla_greeks cdf (a\<lparr>spots := PyTensor (tab n (spec_spot a)), forwards := PyNone\<rparr>)"
proof -
  let ?a' = "a\<lparr>spots := PyTensor (tab n (spec_spot a)), forwards := PyNone\<rparr>"
  have "fits n (PyTensor (tab n (spec_spot a)))" and "fits n PyNone"
    by (simp_all add: fits_def batch_of_def)
  with wf have wf': "well_formed ?a' n"
    by (simp add: well_formed_def)
  from ok supplied have ok': "resolvable ?a'"
    by (simp add: resolvable_def check_inputs_def split: if_splits)
  have forward: "tab n (spec_forward ?a') = tab n (spec_forward a)"
  proof (rule tab_cong)
    fix i assume "i < n"
    have "exp (- spec_cost_of_carry a i * spec_expiry a i)
            * exp (spec_cost_of_carry a i * spec_expiry a i) = 1"
      by (simp add: exp_add [symmetric])
    then have "batch_of (forwards a) ! i
            * exp (- spec_cost_of_carry a i * spec_expiry a i)
            * exp (spec_cost_of_carry a i * spec_expiry a i) = batch_of (forwards a) ! i"
      by (simp add: mult.assoc)
    with \<open>i < n\<close> supplied show "spec_forward ?a' i = spec_forward a i"
      by (simp add: spec_forward_def spec_spot_def batch_of_def spec_ignores_spot_forward)
  qed
  have spot: "tab n (spec_spot ?a') = tab n (spec_spot a)"
    by (rule tab_cong) (simp add: spec_spot_def batch_of_def)
  from selector have selector': "greek ?a' \<in> set [''delta'', ''gamma'', ''theta'', ''vega'', ''rho'']"
    by simp
  show ?thesis
    unfolding greeks_resolved [OF wf ok selector] greeks_resolved [OF wf' ok' selector']
    by (simp add: forward spot spec_ignores_spot_forward)
qed

end
